theory Spec2Isabelle
  imports Main
begin

section \<open>JavaScript values reaching the post-stats view\<close>

text \<open>
  \<^verbatim>\<open>PostStats\<close> (src/components/shared/PostStats.tsx) receives \<^verbatim>\<open>post\<close> and the
  current-user document as deserialised backend documents. The TypeScript annotation
  \<^verbatim>\<open>Models.Document\<close> is erased at run time and the component itself guards against
  \<^verbatim>\<open>null\<close>, \<^verbatim>\<open>undefined\<close> and non-array fields, so the documents are modelled as
  untyped JSON-like trees. Numbers are restricted to integers (no \<^verbatim>\<open>NaN\<close>, no fractions);
  an object is its list of own properties, the first binding of a name being the one read.
\<close>

datatype jsval =
    JUndefined
  | JNull
  | JBool bool
  | JNum int
  | JStr string
  | JArr "jsval list"
  | JObj "(string \<times> jsval) list"

text \<open>The only exception the component can raise by itself is a \<^verbatim>\<open>TypeError\<close>.\<close>

datatype exn = TypeError

text \<open>\<^verbatim>\<open>x == null\<close>: the two values on which a property read throws.\<close>

fun nullish :: "jsval \<Rightarrow> bool" where
  "nullish JUndefined = True"
| "nullish JNull = True"
| "nullish _ = False"

text \<open>JavaScript \<^verbatim>\<open>ToBoolean\<close>, as used by \<^verbatim>\<open>if (v)\<close>, \<^verbatim>\<open>!v\<close>, \<^verbatim>\<open>!!v\<close> and \<^verbatim>\<open>a && b\<close>.\<close>

fun truthy :: "jsval \<Rightarrow> bool" where
  "truthy JUndefined = False"
| "truthy JNull = False"
| "truthy (JBool b) = b"
| "truthy (JNum n) = (n \<noteq> 0)"
| "truthy (JStr s) = (s \<noteq> [])"
| "truthy (JArr xs) = True"
| "truthy (JObj kvs) = True"

text \<open>
  \<^verbatim>\<open>v.name\<close> for the property names the component reads (\<^verbatim>\<open>likes\<close>, \<^verbatim>\<open>$id\<close>, \<^verbatim>\<open>post\<close>,
  \<^verbatim>\<open>save\<close>): a \<^verbatim>\<open>TypeError\<close> on \<^verbatim>\<open>null\<close> and \<^verbatim>\<open>undefined\<close>, the own property of an
  object or \<^verbatim>\<open>undefined\<close> when it has none, and \<^verbatim>\<open>undefined\<close> on booleans, numbers,
  strings and arrays, none of whose prototypes carries one of these names.
\<close>

fun get_prop :: "jsval \<Rightarrow> string \<Rightarrow> exn + jsval" where
  "get_prop JUndefined name = Inl TypeError"
| "get_prop JNull name = Inl TypeError"
| "get_prop (JObj kvs) name =
     (case map_of kvs name of None \<Rightarrow> Inr JUndefined | Some v \<Rightarrow> Inr v)"
| "get_prop _ name = Inr JUndefined"

text \<open>Optional chaining \<^verbatim>\<open>v?.name\<close>: \<^verbatim>\<open>undefined\<close> on a nullish \<^verbatim>\<open>v\<close>, never a throw.\<close>

fun opt_prop :: "jsval \<Rightarrow> string \<Rightarrow> jsval" where
  "opt_prop (JObj kvs) name =
     (case map_of kvs name of None \<Rightarrow> JUndefined | Some v \<Rightarrow> v)"
| "opt_prop _ name = JUndefined"

text \<open>
  Strict equality \<^verbatim>\<open>a === b\<close>. Primitives compare by value. Arrays and objects compare by
  reference; the two operands the component compares are read from two separately
  deserialised documents, so two such references are never the same one.
  \<^verbatim>\<open>Array.prototype.includes\<close> uses SameValueZero, which differs from \<^verbatim>\<open>===\<close> on
  \<^verbatim>\<open>NaN\<close> only, a value outside this model.
\<close>

fun strict_eq :: "jsval \<Rightarrow> jsval \<Rightarrow> bool" where
  "strict_eq JUndefined JUndefined = True"
| "strict_eq JNull JNull = True"
| "strict_eq (JBool a) (JBool b) = (a = b)"
| "strict_eq (JNum a) (JNum b) = (a = b)"
| "strict_eq (JStr a) (JStr b) = (a = b)"
| "strict_eq _ _ = False"

definition includes_js :: "jsval list \<Rightarrow> jsval \<Rightarrow> bool" where
  "includes_js xs v = list_ex (\<lambda>x. strict_eq x v) xs"

text \<open>\<^verbatim>\<open>xs.map(f)\<close> and \<^verbatim>\<open>xs.find(p)\<close> with callbacks that may throw: the first throw
  ends the traversal; \<^verbatim>\<open>find\<close> stops at the first element accepted and yields
  \<^verbatim>\<open>undefined\<close> when there is none.\<close>

fun map_js :: "(jsval \<Rightarrow> exn + jsval) \<Rightarrow> jsval list \<Rightarrow> exn + jsval list" where
  "map_js f [] = Inr []"
| "map_js f (x # xs) =
     (case f x of
        Inl e \<Rightarrow> Inl e
      | Inr y \<Rightarrow> (case map_js f xs of Inl e \<Rightarrow> Inl e | Inr ys \<Rightarrow> Inr (y # ys)))"

fun find_js :: "(jsval \<Rightarrow> exn + bool) \<Rightarrow> jsval list \<Rightarrow> exn + jsval" where
  "find_js p [] = Inr JUndefined"
| "find_js p (x # xs) =
     (case p x of
        Inl e \<Rightarrow> Inl e
      | Inr b \<Rightarrow> if b then Inr x else find_js p xs)"

section \<open>The component\<close>

text \<open>
  The two \<^verbatim>\<open>useState\<close> cells. \<^verbatim>\<open>likes\<close> holds the identifiers produced by
  \<^verbatim>\<open>likesList\<close>, whatever values the documents carried there.
\<close>

record state =
  likes :: "jsval list"
  isSaved :: bool

text \<open>
  What a handler does besides replacing state, in call order: the call on the DOM event,
  the three mutations (\<^verbatim>\<open>likePost\<close>, \<^verbatim>\<open>savePost\<close>, \<^verbatim>\<open>deleteSavedPost\<close>) with their
  arguments, and \<^verbatim>\<open>console.warn\<close>.
\<close>

datatype effect =
    StopPropagation
  | LikePost jsval "jsval list"
  | SavePost jsval string
  | DeleteSavedPost jsval
  | Warn string

fun is_remote :: "effect \<Rightarrow> bool" where
  "is_remote (LikePost pid ls) = True"
| "is_remote (SavePost pid uid) = True"
| "is_remote (DeleteSavedPost rid) = True"
| "is_remote _ = False"

definition remote_calls :: "effect list \<Rightarrow> effect list" where
  "remote_calls es = filter is_remote es"

text \<open>
  Lines 14-16:
  \<^verbatim>\<open>post.likes && Array.isArray(post.likes) ? post.likes.map((user) => user.$id) : []\<close>.
  \<^verbatim>\<open>post.likes\<close> is a plain property read.
\<close>

definition likesList :: "jsval \<Rightarrow> exn + jsval list" where
  "likesList post =
     (case get_prop post ''likes'' of
        Inl e \<Rightarrow> Inl e
      | Inr l \<Rightarrow>
          (case l of
             JArr users \<Rightarrow> map_js (\<lambda>user. get_prop user ''$id'') users
           | _ \<Rightarrow> Inr []))"

text \<open>
  Lines 32-34:
  \<^verbatim>\<open>currentUser?.save?.find((record) => record.post?.$id === post?.$id)\<close>.
  Calling \<^verbatim>\<open>find\<close> on a value that is neither nullish nor an array is a
  \<^verbatim>\<open>TypeError\<close> (not a function).
\<close>

definition record_matches :: "jsval \<Rightarrow> jsval \<Rightarrow> exn + bool" where
  "record_matches post record =
     (case get_prop record ''post'' of
        Inl e \<Rightarrow> Inl e
      | Inr rp \<Rightarrow> Inr (strict_eq (opt_prop rp ''$id'') (opt_prop post ''$id'')))"

definition savedPostRecord :: "jsval \<Rightarrow> jsval \<Rightarrow> exn + jsval" where
  "savedPostRecord post currentUser =
     (case opt_prop currentUser ''save'' of
        JUndefined \<Rightarrow> Inr JUndefined
      | JNull \<Rightarrow> Inr JUndefined
      | JArr records \<Rightarrow> find_js (record_matches post) records
      | _ \<Rightarrow> Inl TypeError)"

text \<open>Lines 36-39, the body of the effect: \<^verbatim>\<open>setIsSaved(!!savedPostRecord)\<close>.\<close>

definition useEffect_isSaved :: "jsval \<Rightarrow> state \<Rightarrow> state" where
  "useEffect_isSaved saved st = st\<lparr>isSaved := truthy saved\<rparr>"

text \<open>Lines 41-43.\<close>

definition checkIsLiked :: "jsval list \<Rightarrow> string \<Rightarrow> bool" where
  "checkIsLiked likesArray userId = includes_js likesArray (JStr userId)"

text \<open>\<^verbatim>\<open>newLikes\<close> of lines 48-56: the copy of \<^verbatim>\<open>likes\<close>, filtered or pushed onto.\<close>

definition toggled_likes :: "jsval list \<Rightarrow> string \<Rightarrow> jsval list" where
  "toggled_likes ls userId =
     (if includes_js ls (JStr userId)
      then filter (\<lambda>id. \<not> strict_eq id (JStr userId)) ls
      else ls @ [JStr userId])"

text \<open>
  Lines 45-66. The handler closes over \<^verbatim>\<open>post\<close>, \<^verbatim>\<open>userId\<close> and the \<^verbatim>\<open>likes\<close> of the
  render it belongs to; it yields the state after \<^verbatim>\<open>setLikes\<close> and the effects issued.
\<close>

definition handleLikePost :: "jsval \<Rightarrow> string \<Rightarrow> state \<Rightarrow> exn + state \<times> effect list" where
  "handleLikePost post userId st =
     (let newLikes = toggled_likes (likes st) userId;
          st' = st\<lparr>likes := newLikes\<rparr>
      in if truthy (opt_prop post ''$id'')
         then (case get_prop post ''$id'' of
                 Inl e \<Rightarrow> Inl e
               | Inr pid \<Rightarrow> Inr (st', [StopPropagation, LikePost pid newLikes]))
         else Inr (st', [StopPropagation, Warn ''Post ID is missing for like action.'']))"

text \<open>
  Lines 68-88. \<^verbatim>\<open>saved\<close> is the \<^verbatim>\<open>savedPostRecord\<close> of the render the handler belongs to.
\<close>

definition handleSavePost ::
  "jsval \<Rightarrow> string \<Rightarrow> jsval \<Rightarrow> state \<Rightarrow> exn + state \<times> effect list" where
  "handleSavePost post userId saved st =
     (if truthy saved
      then (case get_prop saved ''$id'' of
              Inl e \<Rightarrow> Inl e
            | Inr rid \<Rightarrow>
                if truthy rid
                then Inr (st\<lparr>isSaved := False\<rparr>, [StopPropagation, DeleteSavedPost rid])
                else Inr (st\<lparr>isSaved := False\<rparr>,
                          [StopPropagation,
                           Warn ''Saved post record ID is missing for delete action.'']))
      else if truthy (opt_prop post ''$id'') \<and> userId \<noteq> []
           then (case get_prop post ''$id'' of
                   Inl e \<Rightarrow> Inl e
                 | Inr pid \<Rightarrow>
                     Inr (st\<lparr>isSaved := True\<rparr>, [StopPropagation, SavePost pid userId]))
           else Inr (st, [StopPropagation,
                          Warn ''Post ID or User ID is missing for save action.'']))"

text \<open>
  What one render shows (lines 93-127): the loading placeholder when \<^verbatim>\<open>!post\<close>, otherwise
  the like icon state, the like count and the saved icon state.
\<close>

datatype view = Loading | Stats bool nat bool

text \<open>
  One pass through the function body with the state cells at \<^verbatim>\<open>st\<close>: \<^verbatim>\<open>likesList\<close> and
  \<^verbatim>\<open>savedPostRecord\<close> are evaluated on every render, before the \<^verbatim>\<open>!post\<close> test. The
  result is the view together with the \<^verbatim>\<open>savedPostRecord\<close> the handlers and the effect
  of this render see.
\<close>

definition render :: "jsval \<Rightarrow> string \<Rightarrow> jsval \<Rightarrow> state \<Rightarrow> exn + view \<times> jsval" where
  "render post userId currentUser st =
     (case likesList post of
        Inl e \<Rightarrow> Inl e
      | Inr ls \<Rightarrow>
          (case savedPostRecord post currentUser of
             Inl e \<Rightarrow> Inl e
           | Inr saved \<Rightarrow>
               if \<not> truthy post then Inr (Loading, saved)
               else Inr (Stats (checkIsLiked (likes st) userId) (length (likes st))
                           (isSaved st), saved)))"

text \<open>
  Mounting: the first render, whose \<^verbatim>\<open>useState\<close> calls seed \<^verbatim>\<open>likes\<close> with
  \<^verbatim>\<open>likesList\<close> and \<^verbatim>\<open>isSaved\<close> with \<^verbatim>\<open>false\<close>, followed by the first run of the effect.
\<close>

definition initial_state :: "jsval \<Rightarrow> exn + state" where
  "initial_state post =
     (case likesList post of
        Inl e \<Rightarrow> Inl e
      | Inr ls \<Rightarrow> Inr \<lparr>likes = ls, isSaved = False\<rparr>)"

definition PostStats :: "jsval \<Rightarrow> string \<Rightarrow> jsval \<Rightarrow> exn + state \<times> view" where
  "PostStats post userId currentUser =
     (case initial_state post of
        Inl e \<Rightarrow> Inl e
      | Inr st0 \<Rightarrow>
          (case render post userId currentUser st0 of
             Inl e \<Rightarrow> Inl e
           | Inr (v, saved) \<Rightarrow> Inr (useEffect_isSaved saved st0, v)))"

section \<open>Vocabulary of the properties\<close>

fun is_array :: "jsval \<Rightarrow> bool" where
  "is_array (JArr xs) = True"
| "is_array _ = False"

text \<open>
  The derived flag in the words of the specification, to be compared with what
  \<^verbatim>\<open>savedPostRecord\<close> and the effect compute. An identifier is the string a document
  carries as \<^verbatim>\<open>$id\<close>; a document without one has no identifier.
\<close>

definition spec_identifier :: "jsval \<Rightarrow> string option" where
  "spec_identifier doc = (case opt_prop doc ''$id'' of JStr s \<Rightarrow> Some s | _ \<Rightarrow> None)"

text \<open>
  The viewer's saved-record collection: the \<^verbatim>\<open>save\<close> list of the current-user document,
  and no record at all while the document or the list is not there.
\<close>

definition spec_saved_records :: "jsval \<Rightarrow> jsval list" where
  "spec_saved_records currentUser =
     (case opt_prop currentUser ''save'' of JArr records \<Rightarrow> records | _ \<Rightarrow> [])"

text \<open>
  ``The viewer's saved-record collection contains a record whose referenced item identifier
  equals the current item's identifier'': the item has an identifier, and the \<^verbatim>\<open>post\<close> of
  some record of the collection has the same one.
\<close>

definition spec_isSaved :: "jsval \<Rightarrow> jsval \<Rightarrow> bool" where
  "spec_isSaved post currentUser =
     (case spec_identifier post of
        None \<Rightarrow> False
      | Some pid \<Rightarrow>
          list_ex (\<lambda>record. spec_identifier (opt_prop record ''post'') = Some pid)
            (spec_saved_records currentUser))"

section \<open>Facts about the building blocks\<close>

lemma strict_eq_JStr: "strict_eq x (JStr s) = (x = JStr s)"
  by (cases x) auto

lemma includes_js_JStr: "includes_js xs (JStr s) = (JStr s \<in> set xs)"
  by (induction xs) (auto simp: includes_js_def strict_eq_JStr)

lemma checkIsLiked_member: "checkIsLiked ls w = (JStr w \<in> set ls)"
  by (simp add: checkIsLiked_def includes_js_JStr)

lemma toggled_likes_eq:
  "toggled_likes ls u =
     (if JStr u \<in> set ls then filter (\<lambda>x. x \<noteq> JStr u) ls else ls @ [JStr u])"
  by (simp add: toggled_likes_def includes_js_JStr strict_eq_JStr)

lemma get_prop_opt_prop: "\<not> nullish v \<Longrightarrow> get_prop v name = Inr (opt_prop v name)"
  by (cases v) (auto split: option.splits)

lemma opt_prop_truthy_obj: "truthy (opt_prop v name) \<Longrightarrow> \<not> nullish v"
  by (cases v) auto

lemma truthy_not_nullish: "truthy v \<Longrightarrow> \<not> nullish v"
  by (cases v) auto

text \<open>The guard \<^verbatim>\<open>if (post?.$id)\<close> makes the read \<^verbatim>\<open>post.$id\<close> behind it safe.\<close>

lemma handleLikePost_present:
  "truthy (opt_prop post ''$id'') \<Longrightarrow>
   handleLikePost post userId st =
     Inr (st\<lparr>likes := toggled_likes (likes st) userId\<rparr>,
          [StopPropagation, LikePost (opt_prop post ''$id'') (toggled_likes (likes st) userId)])"
  by (simp add: handleLikePost_def Let_def get_prop_opt_prop opt_prop_truthy_obj)

lemma handleLikePost_absent:
  "\<not> truthy (opt_prop post ''$id'') \<Longrightarrow>
   handleLikePost post userId st =
     Inr (st\<lparr>likes := toggled_likes (likes st) userId\<rparr>,
          [StopPropagation, Warn ''Post ID is missing for like action.''])"
  by (simp add: handleLikePost_def Let_def)

text \<open>Dropping every occurrence is dropping one when there is at most one.\<close>

lemma filter_neq_remove1:
  "count_list xs x \<le> 1 \<Longrightarrow> filter (\<lambda>y. y \<noteq> x) xs = remove1 x xs"
proof (induction xs)
  case Nil
  then show ?case by simp
next
  case (Cons a xs)
  show ?case
  proof (cases "a = x")
    case True
    with Cons.prems have "count_list xs x = 0" by simp
    then have "x \<notin> set xs" by (simp add: count_list_0_iff)
    then have "filter (\<lambda>y. y \<noteq> x) xs = xs" by (induction xs) auto
    with True show ?thesis by simp
  next
    case False
    with Cons show ?thesis by simp
  qed
qed

lemma set_toggled_twice: "set (toggled_likes (toggled_likes ls u) u) = set ls"
  by (auto simp: toggled_likes_eq)

lemma distinct_toggled: "distinct ls \<Longrightarrow> distinct (toggled_likes ls u)"
  by (simp add: toggled_likes_eq)

lemma toggled_frame: "w \<noteq> JStr u \<Longrightarrow> (w \<in> set (toggled_likes ls u)) = (w \<in> set ls)"
  by (auto simp: toggled_likes_eq)

section \<open>Toggle-like\<close>

text \<open>
  C1, as the code has it. With the item identifier present (\<^verbatim>\<open>post?.$id\<close> truthy),
  \<^verbatim>\<open>handleLikePost\<close> replaces the like sequence \<open>L\<close> by \<open>L'\<close>, which is \<open>L\<close> without
  every occurrence of the viewer if the viewer occurs in \<open>L\<close> and \<open>L\<close> with the viewer
  appended otherwise, and it issues one remote call, \<^verbatim>\<open>likePost\<close> with the item identifier
  and the whole of \<open>L'\<close>. Where the viewer occurs at most once in \<open>L\<close>, \<open>L'\<close> is \<open>L\<close> with
  one occurrence removed. The instance below is the scenario of the specification: likes
  \<^verbatim>\<open>["U2","U3"]\<close>, viewer \<^verbatim>\<open>"U1"\<close>.
\<close>

theorem toggle_like_update:
  "truthy (opt_prop post ''$id'') \<Longrightarrow>
   L' = (if JStr v \<in> set (likes st)
         then filter (\<lambda>x. x \<noteq> JStr v) (likes st)
         else likes st @ [JStr v]) \<Longrightarrow>
   handleLikePost post v st =
     Inr (st\<lparr>likes := L'\<rparr>, [StopPropagation, LikePost (opt_prop post ''$id'') L'])
   \<and> (count_list (likes st) (JStr v) \<le> 1 \<longrightarrow>
        L' = (if JStr v \<in> set (likes st)
              then remove1 (JStr v) (likes st)
              else likes st @ [JStr v]))"
  by (simp add: handleLikePost_present toggled_likes_eq filter_neq_remove1)

theorem toggle_like_update_witness:
  "truthy (opt_prop (JObj [(''$id'', JStr ''P1'')]) ''$id'')
   \<and> handleLikePost (JObj [(''$id'', JStr ''P1'')]) ''U1''
        \<lparr>likes = [JStr ''U2'', JStr ''U3''], isSaved = False\<rparr> =
      Inr (\<lparr>likes = [JStr ''U2'', JStr ''U3'', JStr ''U1''], isSaved = False\<rparr>,
           [StopPropagation,
            LikePost (JStr ''P1'') [JStr ''U2'', JStr ''U3'', JStr ''U1'']])"
  using toggle_like_update
          [of "JObj [(''$id'', JStr ''P1'')]"
              "[JStr ''U2'', JStr ''U3'', JStr ''U1'']" "''U1''"
              "\<lparr>likes = [JStr ''U2'', JStr ''U3''], isSaved = False\<rparr>"]
  by simp

text \<open>
  C1 as stated asks for one occurrence to be removed from every like sequence. An item
  whose remote like list names \<^verbatim>\<open>"U1"\<close> twice seeds the sequence \<^verbatim>\<open>["U1","U1"]\<close>; the
  toggle of \<^verbatim>\<open>"U1"\<close> leaves the empty sequence and sends it, where the removal of one
  occurrence leaves \<^verbatim>\<open>["U1"]\<close>.
\<close>

theorem toggle_like_one_occurrence_counterexample:
  "initial_state (JObj [(''$id'', JStr ''P1''),
                        (''likes'', JArr [JObj [(''$id'', JStr ''U1'')],
                                          JObj [(''$id'', JStr ''U1'')]])]) =
      Inr \<lparr>likes = [JStr ''U1'', JStr ''U1''], isSaved = False\<rparr>
   \<and> handleLikePost (JObj [(''$id'', JStr ''P1''),
                           (''likes'', JArr [JObj [(''$id'', JStr ''U1'')],
                                             JObj [(''$id'', JStr ''U1'')]])]) ''U1''
        \<lparr>likes = [JStr ''U1'', JStr ''U1''], isSaved = False\<rparr> =
      Inr (\<lparr>likes = [], isSaved = False\<rparr>, [StopPropagation, LikePost (JStr ''P1'') []])
   \<and> remove1 (JStr ''U1'') [JStr ''U1'', JStr ''U1''] = [JStr ''U1'']
   \<and> handleLikePost (JObj [(''$id'', JStr ''P1''),
                           (''likes'', JArr [JObj [(''$id'', JStr ''U1'')],
                                             JObj [(''$id'', JStr ''U1'')]])]) ''U1''
        \<lparr>likes = [JStr ''U1'', JStr ''U1''], isSaved = False\<rparr> \<noteq>
      Inr (\<lparr>likes = remove1 (JStr ''U1'') [JStr ''U1'', JStr ''U1''], isSaved = False\<rparr>,
           [StopPropagation,
            LikePost (JStr ''P1'') (remove1 (JStr ''U1'') [JStr ''U1'', JStr ''U1''])])"
  by (simp add: initial_state_def likesList_def handleLikePost_def toggled_likes_def
        includes_js_def)

text \<open>
  C3, as the code has it. \<^verbatim>\<open>setLikes(newLikes)\<close> runs before the test of \<^verbatim>\<open>post?.$id\<close>,
  which guards the remote call alone. With the item identifier absent, \<^verbatim>\<open>handleLikePost\<close>
  issues no remote call, emits the diagnostic and leaves \<open>isSaved\<close> as it was; the local
  like sequence is replaced by the toggled one all the same.
\<close>

theorem toggle_like_missing_id:
  "\<not> truthy (opt_prop post ''$id'') \<Longrightarrow>
   \<exists>st' effs. handleLikePost post v st = Inr (st', effs)
     \<and> effs = [StopPropagation, Warn ''Post ID is missing for like action.'']
     \<and> remote_calls effs = []
     \<and> isSaved st' = isSaved st
     \<and> likes st' = (if JStr v \<in> set (likes st)
                     then filter (\<lambda>x. x \<noteq> JStr v) (likes st)
                     else likes st @ [JStr v])"
  by (simp add: handleLikePost_absent toggled_likes_eq remote_calls_def)

theorem toggle_like_missing_id_witness:
  "\<not> truthy (opt_prop (JObj [(''likes'', JArr [])]) ''$id'')
   \<and> handleLikePost (JObj [(''likes'', JArr [])]) ''U1'' \<lparr>likes = [], isSaved = True\<rparr> =
       Inr (\<lparr>likes = [JStr ''U1''], isSaved = True\<rparr>,
            [StopPropagation, Warn ''Post ID is missing for like action.''])"
  using toggle_like_missing_id
          [of "JObj [(''likes'', JArr [])]" "''U1''" "\<lparr>likes = [], isSaved = True\<rparr>"]
  by auto

text \<open>
  C3 as stated has the toggle leave the like sequence alone when the item identifier is
  absent. On an item without \<^verbatim>\<open>$id\<close> and an empty like sequence, the toggle of \<^verbatim>\<open>"U1"\<close>
  makes the sequence \<^verbatim>\<open>["U1"]\<close>.
\<close>

theorem toggle_like_missing_id_counterexample:
  "\<not> truthy (opt_prop (JObj [(''likes'', JArr [])]) ''$id'')
   \<and> handleLikePost (JObj [(''likes'', JArr [])]) ''U1'' \<lparr>likes = [], isSaved = False\<rparr> =
       Inr (\<lparr>likes = [JStr ''U1''], isSaved = False\<rparr>,
            [StopPropagation, Warn ''Post ID is missing for like action.''])
   \<and> likes \<lparr>likes = [JStr ''U1''], isSaved = False\<rparr> \<noteq> likes \<lparr>likes = [], isSaved = False\<rparr>"
  by (simp add: handleLikePost_def Let_def toggled_likes_def includes_js_def)

text \<open>
  C5, as the code has it. For every like sequence and viewer, two successive invocations of \<^verbatim>\<open>handleLikePost\<close>,
  the second on the state the first one left, both return, and the final sequence has the
  members of the first one: a value occurs in the one iff it occurs in the other, and
  \<^verbatim>\<open>checkIsLiked\<close> answers the same on both for every viewer identifier. When the
  item identifier is present, each of the two invocations issues its remote like-update,
  carrying the sequence that invocation produced.
\<close>

theorem toggle_like_twice:
  "\<exists>st1 e1 st2 e2.
      handleLikePost post v st = Inr (st1, e1)
    \<and> handleLikePost post v st1 = Inr (st2, e2)
    \<and> set (likes st2) = set (likes st)
    \<and> (\<forall>w. checkIsLiked (likes st2) w = checkIsLiked (likes st) w)
    \<and> (truthy (opt_prop post ''$id'') \<longrightarrow>
          remote_calls e1 = [LikePost (opt_prop post ''$id'') (likes st1)]
        \<and> remote_calls e2 = [LikePost (opt_prop post ''$id'') (likes st2)])"
proof (cases "truthy (opt_prop post ''$id'')")
  case True
  then show ?thesis
    by (simp add: handleLikePost_present set_toggled_twice remote_calls_def
          checkIsLiked_member)
next
  case False
  then show ?thesis
    by (simp add: handleLikePost_absent set_toggled_twice checkIsLiked_member)
qed

theorem toggle_like_twice_witness:
  "truthy (opt_prop (JObj [(''$id'', JStr ''P1'')]) ''$id'')
   \<and> handleLikePost (JObj [(''$id'', JStr ''P1'')]) ''U3''
        \<lparr>likes = [JStr ''U2'', JStr ''U3'', JStr ''U4''], isSaved = False\<rparr> =
       Inr (\<lparr>likes = [JStr ''U2'', JStr ''U4''], isSaved = False\<rparr>,
            [StopPropagation, LikePost (JStr ''P1'') [JStr ''U2'', JStr ''U4'']])
   \<and> handleLikePost (JObj [(''$id'', JStr ''P1'')]) ''U3''
        \<lparr>likes = [JStr ''U2'', JStr ''U4''], isSaved = False\<rparr> =
       Inr (\<lparr>likes = [JStr ''U2'', JStr ''U4'', JStr ''U3''], isSaved = False\<rparr>,
            [StopPropagation, LikePost (JStr ''P1'') [JStr ''U2'', JStr ''U4'', JStr ''U3'']])
   \<and> (\<exists>st1 e1 st2 e2.
          handleLikePost (JObj [(''$id'', JStr ''P1'')]) ''U3''
            \<lparr>likes = [JStr ''U2'', JStr ''U3'', JStr ''U4''], isSaved = False\<rparr> = Inr (st1, e1)
        \<and> handleLikePost (JObj [(''$id'', JStr ''P1'')]) ''U3'' st1 = Inr (st2, e2)
        \<and> set (likes st2) = set [JStr ''U2'', JStr ''U3'', JStr ''U4'']
        \<and> (\<forall>w. checkIsLiked (likes st2) w
                 = checkIsLiked [JStr ''U2'', JStr ''U3'', JStr ''U4''] w)
        \<and> remote_calls e1 = [LikePost (JStr ''P1'') (likes st1)]
        \<and> remote_calls e2 = [LikePost (JStr ''P1'') (likes st2)])"
proof -
  let ?P = "JObj [(''$id'', JStr ''P1'')]"
  let ?S = "\<lparr>likes = [JStr ''U2'', JStr ''U3'', JStr ''U4''], isSaved = False\<rparr>"
  have present: "truthy (opt_prop ?P ''$id'')" by simp
  have first: "handleLikePost ?P ''U3'' ?S =
       Inr (\<lparr>likes = [JStr ''U2'', JStr ''U4''], isSaved = False\<rparr>,
            [StopPropagation, LikePost (JStr ''P1'') [JStr ''U2'', JStr ''U4'']])"
    by (simp add: handleLikePost_def Let_def toggled_likes_def includes_js_def)
  have second: "handleLikePost ?P ''U3'' \<lparr>likes = [JStr ''U2'', JStr ''U4''], isSaved = False\<rparr> =
       Inr (\<lparr>likes = [JStr ''U2'', JStr ''U4'', JStr ''U3''], isSaved = False\<rparr>,
            [StopPropagation, LikePost (JStr ''P1'') [JStr ''U2'', JStr ''U4'', JStr ''U3'']])"
    by (simp add: handleLikePost_def Let_def toggled_likes_def includes_js_def)
  from toggle_like_twice [of ?P "''U3''" ?S] present
  have both: "\<exists>st1 e1 st2 e2.
          handleLikePost ?P ''U3'' ?S = Inr (st1, e1)
        \<and> handleLikePost ?P ''U3'' st1 = Inr (st2, e2)
        \<and> set (likes st2) = set [JStr ''U2'', JStr ''U3'', JStr ''U4'']
        \<and> (\<forall>w. checkIsLiked (likes st2) w
                 = checkIsLiked [JStr ''U2'', JStr ''U3'', JStr ''U4''] w)
        \<and> remote_calls e1 = [LikePost (JStr ''P1'') (likes st1)]
        \<and> remote_calls e2 = [LikePost (JStr ''P1'') (likes st2)]"
    by simp
  show ?thesis
    by (rule conjI [OF present conjI [OF first conjI [OF second both]]])
qed

text \<open>
  C5 as stated has the remote like-update issued on both invocations for every like
  sequence and viewer. On an item without \<^verbatim>\<open>$id\<close> the guard at line 61 fails both
  times: the two invocations of the toggle of \<^verbatim>\<open>"U1"\<close> on the empty sequence return with
  the diagnostic only, and neither issues a remote call.
\<close>

theorem toggle_like_twice_no_remote_counterexample:
  "\<not> truthy (opt_prop (JObj [(''likes'', JArr [])]) ''$id'')
   \<and> handleLikePost (JObj [(''likes'', JArr [])]) ''U1'' \<lparr>likes = [], isSaved = False\<rparr> =
       Inr (\<lparr>likes = [JStr ''U1''], isSaved = False\<rparr>,
            [StopPropagation, Warn ''Post ID is missing for like action.''])
   \<and> handleLikePost (JObj [(''likes'', JArr [])]) ''U1''
        \<lparr>likes = [JStr ''U1''], isSaved = False\<rparr> =
       Inr (\<lparr>likes = [], isSaved = False\<rparr>,
            [StopPropagation, Warn ''Post ID is missing for like action.''])
   \<and> remote_calls [StopPropagation, Warn ''Post ID is missing for like action.''] = []"
  by (simp add: handleLikePost_def Let_def toggled_likes_def includes_js_def remote_calls_def)

text \<open>
  C10. For a value \<open>w\<close> other than the acting viewer's identifier, \<open>w\<close> is a member of the
  like sequence after \<^verbatim>\<open>handleLikePost\<close> iff it was one before (for a viewer identifier,
  \<^verbatim>\<open>checkIsLiked\<close> answers the same before and after), and \<open>isSaved\<close> is unchanged,
  whether or not the item identifier is present.
\<close>

theorem toggle_like_frame:
  "w \<noteq> JStr v \<Longrightarrow>
   \<exists>st' effs. handleLikePost post v st = Inr (st', effs)
     \<and> (w \<in> set (likes st') \<longleftrightarrow> w \<in> set (likes st))
     \<and> (\<forall>u. w = JStr u \<longrightarrow> checkIsLiked (likes st') u = checkIsLiked (likes st) u)
     \<and> isSaved st' = isSaved st"
proof (cases "truthy (opt_prop post ''$id'')")
  case True
  assume "w \<noteq> JStr v"
  with True show ?thesis
    by (auto simp: handleLikePost_present toggled_frame checkIsLiked_member)
next
  case False
  assume "w \<noteq> JStr v"
  with False show ?thesis
    by (auto simp: handleLikePost_absent toggled_frame checkIsLiked_member)
qed

theorem toggle_like_frame_witness:
  "JStr ''U2'' \<noteq> JStr ''U1''
   \<and> handleLikePost (JObj [(''$id'', JStr ''P1'')]) ''U1''
        \<lparr>likes = [JStr ''U2'', JStr ''U1''], isSaved = True\<rparr> =
       Inr (\<lparr>likes = [JStr ''U2''], isSaved = True\<rparr>,
            [StopPropagation, LikePost (JStr ''P1'') [JStr ''U2'']])
   \<and> (\<exists>st' effs.
          handleLikePost (JObj [(''$id'', JStr ''P1'')]) ''U1''
            \<lparr>likes = [JStr ''U2'', JStr ''U1''], isSaved = True\<rparr> = Inr (st', effs)
        \<and> (JStr ''U2'' \<in> set (likes st')
            \<longleftrightarrow> JStr ''U2'' \<in> set (likes \<lparr>likes = [JStr ''U2'', JStr ''U1''], isSaved = True\<rparr>))
        \<and> (\<forall>u. JStr ''U2'' = JStr u \<longrightarrow>
               checkIsLiked (likes st') u
               = checkIsLiked (likes \<lparr>likes = [JStr ''U2'', JStr ''U1''], isSaved = True\<rparr>) u)
        \<and> isSaved st' = isSaved \<lparr>likes = [JStr ''U2'', JStr ''U1''], isSaved = True\<rparr>)"
proof -
  let ?P = "JObj [(''$id'', JStr ''P1'')]"
  let ?S = "\<lparr>likes = [JStr ''U2'', JStr ''U1''], isSaved = True\<rparr>"
  have other: "JStr ''U2'' \<noteq> JStr ''U1''" by simp
  have run: "handleLikePost ?P ''U1'' ?S =
       Inr (\<lparr>likes = [JStr ''U2''], isSaved = True\<rparr>,
            [StopPropagation, LikePost (JStr ''P1'') [JStr ''U2'']])"
    by (simp add: handleLikePost_def Let_def toggled_likes_def includes_js_def)
  note frame = toggle_like_frame [OF other, of ?P ?S]
  show ?thesis
    by (rule conjI [OF other conjI [OF run frame]])
qed

section \<open>The derived saved flag\<close>

lemma spec_identifier_eq: "(spec_identifier d = Some pid) = (opt_prop d ''$id'' = JStr pid)"
  by (cases "opt_prop d ''$id''") (simp_all add: spec_identifier_def)

text \<open>
  Against an item with identifier \<open>pid\<close> the callback of \<^verbatim>\<open>find\<close> throws on a nullish
  element and otherwise tells whether the element's \<^verbatim>\<open>post\<close> has the identifier \<open>pid\<close>;
  an element it accepts is an object, hence truthy.
\<close>

lemma record_matches_identified:
  "opt_prop post ''$id'' = JStr pid \<Longrightarrow>
   record_matches post r =
     (if nullish r then Inl TypeError
      else Inr (spec_identifier (opt_prop r ''post'') = Some pid))"
  by (cases r) (simp_all add: record_matches_def strict_eq_JStr spec_identifier_eq
        split: option.splits)

lemma references_truthy:
  "spec_identifier (opt_prop r ''post'') = Some pid \<Longrightarrow> truthy r"
  by (cases r) (simp_all add: spec_identifier_def)

lemma find_js_identified:
  "opt_prop post ''$id'' = JStr pid \<Longrightarrow>
   find_js (record_matches post) rs = Inr saved \<Longrightarrow>
   truthy saved = list_ex (\<lambda>r. spec_identifier (opt_prop r ''post'') = Some pid) rs"
proof (induction rs)
  case Nil
  then show ?case by simp
next
  case (Cons r rs)
  note head = record_matches_identified [OF Cons.prems(1), of r]
  show ?case
  proof (cases "nullish r")
    case True
    with Cons.prems(2) head show ?thesis by simp
  next
    case False
    show ?thesis
    proof (cases "spec_identifier (opt_prop r ''post'') = Some pid")
      case True
      with False Cons.prems(2) head have "saved = r" by simp
      with True show ?thesis by (simp add: references_truthy)
    next
      case no: False
      with False Cons.prems(2) head have "find_js (record_matches post) rs = Inr saved"
        by simp
      with Cons.IH Cons.prems(1) no show ?thesis by simp
    qed
  qed
qed

lemma find_js_returns:
  "opt_prop post ''$id'' = JStr pid \<Longrightarrow> list_all (\<lambda>r. \<not> nullish r) rs \<Longrightarrow>
   \<exists>saved. find_js (record_matches post) rs = Inr saved"
  by (induction rs) (simp_all add: record_matches_identified)

text \<open>
  C2, as the code has it. For an item that has an identifier, every derivation pass that
  completes leaves \<open>isSaved\<close> true iff the viewer's saved-record collection contains a
  record whose referenced item identifier equals the identifier of the item, whatever
  \<open>isSaved\<close> was before; and the pass completes whenever the \<^verbatim>\<open>save\<close> field is nullish
  or a list, none of whose entries is nullish. In the instance below the viewer holds the
  record \<^verbatim>\<open>{$id:"R9", post:{$id:"P1"}}\<close>, the item is \<^verbatim>\<open>"P1"\<close> and \<open>isSaved\<close> was false.
\<close>

theorem isSaved_derivation:
  "spec_identifier post = Some pid \<Longrightarrow>
     (\<forall>saved. savedPostRecord post currentUser = Inr saved \<longrightarrow>
        isSaved (useEffect_isSaved saved st) = spec_isSaved post currentUser)
   \<and> ((nullish (opt_prop currentUser ''save'') \<or> is_array (opt_prop currentUser ''save''))
        \<and> list_all (\<lambda>r. \<not> nullish r) (spec_saved_records currentUser) \<longrightarrow>
      (\<exists>saved. savedPostRecord post currentUser = Inr saved))"
proof -
  assume "spec_identifier post = Some pid"
  then have pid: "opt_prop post ''$id'' = JStr pid" by (simp add: spec_identifier_eq)
  show ?thesis
  proof (cases "opt_prop currentUser ''save''")
    case (JArr records)
    with pid \<open>spec_identifier post = Some pid\<close> show ?thesis
      by (auto simp: savedPostRecord_def useEffect_isSaved_def spec_isSaved_def
            spec_saved_records_def find_js_identified dest: find_js_returns)
  qed (simp_all add: savedPostRecord_def useEffect_isSaved_def spec_isSaved_def
         spec_saved_records_def \<open>spec_identifier post = Some pid\<close>)
qed

theorem isSaved_derivation_witness:
  "spec_identifier (JObj [(''$id'', JStr ''P1'')]) = Some ''P1''
   \<and> is_array (opt_prop (JObj [(''$id'', JStr ''U1''),
         (''save'', JArr [JObj [(''$id'', JStr ''R9''),
                                (''post'', JObj [(''$id'', JStr ''P1'')])]])]) ''save'')
   \<and> list_all (\<lambda>r. \<not> nullish r)
        (spec_saved_records (JObj [(''$id'', JStr ''U1''),
         (''save'', JArr [JObj [(''$id'', JStr ''R9''),
                                (''post'', JObj [(''$id'', JStr ''P1'')])]])]))
   \<and> spec_isSaved (JObj [(''$id'', JStr ''P1'')])
        (JObj [(''$id'', JStr ''U1''),
         (''save'', JArr [JObj [(''$id'', JStr ''R9''),
                                (''post'', JObj [(''$id'', JStr ''P1'')])]])])
   \<and> (\<exists>saved.
         savedPostRecord (JObj [(''$id'', JStr ''P1'')])
           (JObj [(''$id'', JStr ''U1''),
                  (''save'', JArr [JObj [(''$id'', JStr ''R9''),
                                         (''post'', JObj [(''$id'', JStr ''P1'')])]])]) = Inr saved
       \<and> isSaved (useEffect_isSaved saved \<lparr>likes = [], isSaved = False\<rparr>) = True)"
proof -
  let ?R = "JObj [(''$id'', JStr ''R9''), (''post'', JObj [(''$id'', JStr ''P1'')])]"
  let ?U = "JObj [(''$id'', JStr ''U1''), (''save'', JArr [?R])]"
  let ?P = "JObj [(''$id'', JStr ''P1'')]"
  let ?S = "\<lparr>likes = [], isSaved = False\<rparr>"
  have item: "spec_identifier ?P = Some ''P1''" by (simp add: spec_identifier_def)
  have arr: "is_array (opt_prop ?U ''save'')" by simp
  have elems: "list_all (\<lambda>r. \<not> nullish r) (spec_saved_records ?U)"
    by (simp add: spec_saved_records_def)
  have refs: "spec_isSaved ?P ?U"
    by (simp add: spec_isSaved_def spec_identifier_def spec_saved_records_def)
  note pass = isSaved_derivation [OF item, of ?U ?S]
  from pass arr elems obtain saved where ret: "savedPostRecord ?P ?U = Inr saved"
    by blast
  from pass ret refs have "isSaved (useEffect_isSaved saved ?S) = True"
    by blast
  with ret have derived: "\<exists>saved. savedPostRecord ?P ?U = Inr saved
       \<and> isSaved (useEffect_isSaved saved ?S) = True"
    by blast
  show ?thesis
    by (rule conjI [OF item conjI [OF arr conjI [OF elems conjI [OF refs derived]]]])
qed

text \<open>
  C2 as stated covers every item. The comparison \<^verbatim>\<open>record.post?.$id === post?.$id\<close> reads
  \<^verbatim>\<open>undefined\<close> on both sides for an item without \<^verbatim>\<open>$id\<close> and the record
  \<^verbatim>\<open>{$id:"R7", post:null}\<close>: the record is found and the pass sets \<open>isSaved\<close> to true,
  although no record of the collection references an item with the identifier of the
  current one, which has none.
\<close>

theorem isSaved_without_identifier_counterexample:
  "savedPostRecord (JObj [(''likes'', JArr [])])
     (JObj [(''$id'', JStr ''U1''),
            (''save'', JArr [JObj [(''$id'', JStr ''R7''), (''post'', JNull)]])]) =
     Inr (JObj [(''$id'', JStr ''R7''), (''post'', JNull)])
   \<and> isSaved (useEffect_isSaved (JObj [(''$id'', JStr ''R7''), (''post'', JNull)])
               \<lparr>likes = [], isSaved = False\<rparr>) = True
   \<and> \<not> spec_isSaved (JObj [(''likes'', JArr [])])
         (JObj [(''$id'', JStr ''U1''),
                (''save'', JArr [JObj [(''$id'', JStr ''R7''), (''post'', JNull)]])])"
  by (simp add: savedPostRecord_def record_matches_def useEffect_isSaved_def spec_isSaved_def
        spec_identifier_def)

section \<open>Toggle-save\<close>

text \<open>The guards of \<^verbatim>\<open>handleSavePost\<close> make the reads behind them safe.\<close>

lemma get_prop_guarded:
  "truthy (opt_prop v name) \<Longrightarrow> get_prop v name = Inr (opt_prop v name)"
  by (simp add: get_prop_opt_prop opt_prop_truthy_obj)

lemma handleSavePost_resolved:
  "truthy saved \<Longrightarrow>
   handleSavePost post userId saved st =
     Inr (st\<lparr>isSaved := False\<rparr>,
          if truthy (opt_prop saved ''$id'')
          then [StopPropagation, DeleteSavedPost (opt_prop saved ''$id'')]
          else [StopPropagation, Warn ''Saved post record ID is missing for delete action.''])"
  by (simp add: handleSavePost_def get_prop_opt_prop truthy_not_nullish)

lemma handleSavePost_unresolved:
  "\<not> truthy saved \<Longrightarrow>
   handleSavePost post userId saved st =
     (if truthy (opt_prop post ''$id'') \<and> userId \<noteq> []
      then Inr (st\<lparr>isSaved := True\<rparr>, [StopPropagation, SavePost (opt_prop post ''$id'') userId])
      else Inr (st, [StopPropagation, Warn ''Post ID or User ID is missing for save action.'']))"
  by (simp add: handleSavePost_def get_prop_guarded)

text \<open>
  C4, as the code has it. Every invocation of \<^verbatim>\<open>handleSavePost\<close> returns, issues at most
  one remote call and leaves the like sequence alone. With a saved record resolved,
  \<open>isSaved\<close> becomes false, and the remote call is the delete of that record by its
  identifier when the record has one, and none, with a diagnostic, when it has not. With no
  saved record resolved, the create binding viewer to item is issued and \<open>isSaved\<close>
  becomes true when the item identifier and the viewer identifier are both present;
  otherwise no call is issued, the state is unchanged and a diagnostic is emitted.
\<close>

theorem toggle_save_calls:
  "\<exists>st' effs. handleSavePost post userId saved st = Inr (st', effs)
     \<and> length (remote_calls effs) \<le> 1
     \<and> likes st' = likes st
     \<and> (truthy saved \<longrightarrow>
           isSaved st' = False
         \<and> (truthy (opt_prop saved ''$id'') \<longrightarrow>
               remote_calls effs = [DeleteSavedPost (opt_prop saved ''$id'')])
         \<and> (\<not> truthy (opt_prop saved ''$id'') \<longrightarrow>
               effs = [StopPropagation,
                       Warn ''Saved post record ID is missing for delete action.'']))
     \<and> (\<not> truthy saved \<longrightarrow>
           (truthy (opt_prop post ''$id'') \<and> userId \<noteq> [] \<longrightarrow>
               isSaved st' = True
             \<and> remote_calls effs = [SavePost (opt_prop post ''$id'') userId])
         \<and> (\<not> (truthy (opt_prop post ''$id'') \<and> userId \<noteq> []) \<longrightarrow>
               st' = st
             \<and> effs = [StopPropagation,
                        Warn ''Post ID or User ID is missing for save action.'']))"
proof (cases "truthy saved")
  case True
  then show ?thesis
    by (simp add: handleSavePost_resolved remote_calls_def)
next
  case False
  then show ?thesis
    by (simp add: handleSavePost_unresolved remote_calls_def)
qed

theorem toggle_save_calls_witness:
  "truthy (JObj [(''$id'', JStr ''R9''), (''post'', JObj [(''$id'', JStr ''P1'')])])
   \<and> handleSavePost (JObj [(''$id'', JStr ''P1'')]) ''U1''
        (JObj [(''$id'', JStr ''R9''), (''post'', JObj [(''$id'', JStr ''P1'')])])
        \<lparr>likes = [], isSaved = True\<rparr> =
       Inr (\<lparr>likes = [], isSaved = False\<rparr>, [StopPropagation, DeleteSavedPost (JStr ''R9'')])
   \<and> (\<exists>st' effs.
         handleSavePost (JObj [(''$id'', JStr ''P1'')]) ''U1''
           (JObj [(''$id'', JStr ''R9''), (''post'', JObj [(''$id'', JStr ''P1'')])])
           \<lparr>likes = [], isSaved = True\<rparr> = Inr (st', effs)
       \<and> length (remote_calls effs) \<le> 1
       \<and> likes st' = []
       \<and> isSaved st' = False
       \<and> remote_calls effs = [DeleteSavedPost (JStr ''R9'')])
   \<and> \<not> truthy JUndefined
   \<and> handleSavePost (JObj [(''$id'', JStr ''P1'')]) ''U1'' JUndefined
        \<lparr>likes = [], isSaved = False\<rparr> =
       Inr (\<lparr>likes = [], isSaved = True\<rparr>, [StopPropagation, SavePost (JStr ''P1'') ''U1''])
   \<and> (\<exists>st' effs.
         handleSavePost (JObj [(''$id'', JStr ''P1'')]) ''U1'' JUndefined
           \<lparr>likes = [], isSaved = False\<rparr> = Inr (st', effs)
       \<and> length (remote_calls effs) \<le> 1
       \<and> likes st' = []
       \<and> isSaved st' = True
       \<and> remote_calls effs = [SavePost (JStr ''P1'') ''U1''])"
proof -
  let ?P = "JObj [(''$id'', JStr ''P1'')]"
  let ?R = "JObj [(''$id'', JStr ''R9''), (''post'', JObj [(''$id'', JStr ''P1'')])]"
  have resolved: "truthy ?R" by simp
  have unsave: "handleSavePost ?P ''U1'' ?R \<lparr>likes = [], isSaved = True\<rparr> =
       Inr (\<lparr>likes = [], isSaved = False\<rparr>, [StopPropagation, DeleteSavedPost (JStr ''R9'')])"
    by (simp add: handleSavePost_def)
  from toggle_save_calls [of ?P "''U1''" ?R "\<lparr>likes = [], isSaved = True\<rparr>"]
  have unsave_inst: "\<exists>st' effs.
         handleSavePost ?P ''U1'' ?R \<lparr>likes = [], isSaved = True\<rparr> = Inr (st', effs)
       \<and> length (remote_calls effs) \<le> 1
       \<and> likes st' = []
       \<and> isSaved st' = False
       \<and> remote_calls effs = [DeleteSavedPost (JStr ''R9'')]"
    by simp
  have unresolved: "\<not> truthy JUndefined" by simp
  have save: "handleSavePost ?P ''U1'' JUndefined \<lparr>likes = [], isSaved = False\<rparr> =
       Inr (\<lparr>likes = [], isSaved = True\<rparr>, [StopPropagation, SavePost (JStr ''P1'') ''U1''])"
    by (simp add: handleSavePost_def)
  from toggle_save_calls [of ?P "''U1''" JUndefined "\<lparr>likes = [], isSaved = False\<rparr>"]
  have save_inst: "\<exists>st' effs.
         handleSavePost ?P ''U1'' JUndefined \<lparr>likes = [], isSaved = False\<rparr> = Inr (st', effs)
       \<and> length (remote_calls effs) \<le> 1
       \<and> likes st' = []
       \<and> isSaved st' = True
       \<and> remote_calls effs = [SavePost (JStr ''P1'') ''U1'']"
    by simp
  show ?thesis
    by (rule conjI [OF resolved conjI [OF unsave conjI [OF unsave_inst
          conjI [OF unresolved conjI [OF save save_inst]]]]])
qed

text \<open>
  C4 as stated has every invocation issue exactly one of create and delete. For the item
  \<^verbatim>\<open>"P1"\<close>, no saved record resolved and the empty viewer identifier, the guard
  \<^verbatim>\<open>post?.$id && userId\<close> fails and no remote call is issued.
\<close>

theorem toggle_save_no_call_counterexample:
  "handleSavePost (JObj [(''$id'', JStr ''P1'')]) [] JUndefined \<lparr>likes = [], isSaved = False\<rparr> =
     Inr (\<lparr>likes = [], isSaved = False\<rparr>,
          [StopPropagation, Warn ''Post ID or User ID is missing for save action.''])
   \<and> remote_calls [StopPropagation, Warn ''Post ID or User ID is missing for save action.''] = []"
  by (simp add: handleSavePost_def remote_calls_def)

text \<open>
  C6, as the code has it. With the item identifier absent and no saved record resolved,
  \<^verbatim>\<open>handleSavePost\<close> issues no remote call, emits the diagnostic and leaves the state,
  \<open>isSaved\<close> included, unchanged.
\<close>

theorem toggle_save_missing_item_id:
  "\<not> truthy (opt_prop post ''$id'') \<Longrightarrow> \<not> truthy saved \<Longrightarrow>
   handleSavePost post userId saved st =
     Inr (st, [StopPropagation, Warn ''Post ID or User ID is missing for save action.''])
   \<and> remote_calls [StopPropagation, Warn ''Post ID or User ID is missing for save action.''] = []"
  by (simp add: handleSavePost_unresolved remote_calls_def)

theorem toggle_save_missing_item_id_witness:
  "\<not> truthy (opt_prop (JObj [(''likes'', JArr [])]) ''$id'')
   \<and> \<not> truthy JUndefined
   \<and> handleSavePost (JObj [(''likes'', JArr [])]) ''U1'' JUndefined
        \<lparr>likes = [], isSaved = False\<rparr> =
       Inr (\<lparr>likes = [], isSaved = False\<rparr>,
            [StopPropagation, Warn ''Post ID or User ID is missing for save action.''])"
  using toggle_save_missing_item_id
          [of "JObj [(''likes'', JArr [])]" JUndefined "''U1''" "\<lparr>likes = [], isSaved = False\<rparr>"]
  by simp

text \<open>
  C6 as stated covers every state without an item identifier. The unsave branch tests the
  resolved record only. For an item without \<^verbatim>\<open>$id\<close> and a viewer holding the record
  \<^verbatim>\<open>{$id:"R9", post:null}\<close>, both sides of the comparison in \<^verbatim>\<open>savedPostRecord\<close> read
  \<^verbatim>\<open>undefined\<close>, the record is resolved, and the toggle sets \<open>isSaved\<close> from true to
  false and issues the delete of \<^verbatim>\<open>"R9"\<close>.
\<close>

theorem toggle_save_missing_item_id_counterexample:
  "\<not> truthy (opt_prop (JObj [(''likes'', JArr [])]) ''$id'')
   \<and> savedPostRecord (JObj [(''likes'', JArr [])])
        (JObj [(''$id'', JStr ''U1''),
               (''save'', JArr [JObj [(''$id'', JStr ''R9''), (''post'', JNull)]])]) =
       Inr (JObj [(''$id'', JStr ''R9''), (''post'', JNull)])
   \<and> handleSavePost (JObj [(''likes'', JArr [])]) ''U1''
        (JObj [(''$id'', JStr ''R9''), (''post'', JNull)]) \<lparr>likes = [], isSaved = True\<rparr> =
       Inr (\<lparr>likes = [], isSaved = False\<rparr>,
            [StopPropagation, DeleteSavedPost (JStr ''R9'')])
   \<and> remote_calls [StopPropagation, DeleteSavedPost (JStr ''R9'')] = [DeleteSavedPost (JStr ''R9'')]"
  by (simp add: savedPostRecord_def record_matches_def handleSavePost_def remote_calls_def)

section \<open>Mounting\<close>

text \<open>
  C7 asks that no item snapshot, a null or absent one included, makes the component throw.
  The comments of the component say as much (lines 26-31 and 90-95), and \<^verbatim>\<open>if (!post)\<close>
  at line 93 returns a placeholder; but line 14 reads \<^verbatim>\<open>post.likes\<close> without optional
  chaining before that test is reached. Mounting with \<^verbatim>\<open>null\<close> or \<^verbatim>\<open>undefined\<close> for
  \<^verbatim>\<open>post\<close> raises a \<^verbatim>\<open>TypeError\<close>, for every viewer and current-user document.
\<close>

theorem PostStats_null_post_throws:
  "PostStats JNull userId currentUser = Inl TypeError
   \<and> PostStats JUndefined userId currentUser = Inl TypeError"
  by (simp add: PostStats_def initial_state_def likesList_def)

text \<open>
  C8. For an item (not nullish itself) whose \<^verbatim>\<open>likes\<close> field is not an array, be it
  \<^verbatim>\<open>null\<close>, absent or any other value, seeding returns, the initial like sequence is
  empty, and \<^verbatim>\<open>checkIsLiked\<close> is false on it for every viewer identifier.
\<close>

theorem likes_malformed_seed_empty:
  "\<not> nullish post \<Longrightarrow> \<not> is_array (opt_prop post ''likes'') \<Longrightarrow>
   \<exists>st0. initial_state post = Inr st0 \<and> likes st0 = [] \<and> \<not> checkIsLiked (likes st0) userId"
  by (cases "opt_prop post ''likes''")
     (simp_all add: initial_state_def likesList_def get_prop_opt_prop checkIsLiked_def
        includes_js_def)

theorem likes_malformed_seed_empty_witness:
  "\<not> nullish (JObj [(''$id'', JStr ''P1''), (''likes'', JNull)])
   \<and> \<not> is_array (opt_prop (JObj [(''$id'', JStr ''P1''), (''likes'', JNull)]) ''likes'')
   \<and> (\<exists>st0. initial_state (JObj [(''$id'', JStr ''P1''), (''likes'', JNull)]) = Inr st0
          \<and> likes st0 = [] \<and> \<not> checkIsLiked (likes st0) ''U1'')"
proof -
  let ?P = "JObj [(''$id'', JStr ''P1''), (''likes'', JNull)]"
  have item: "\<not> nullish ?P" by simp
  have bad: "\<not> is_array (opt_prop ?P ''likes'')" by simp
  show ?thesis
    by (rule conjI [OF item conjI [OF bad likes_malformed_seed_empty [OF item bad]]])
qed

lemma map_js_get_prop:
  "list_all (\<lambda>u. \<not> nullish u) us \<Longrightarrow>
   map_js (\<lambda>u. get_prop u name) us = Inr (map (\<lambda>u. opt_prop u name) us)"
  by (induction us) (simp_all add: get_prop_opt_prop)

lemma opt_prop_not_nullish: "opt_prop v name = JArr xs \<Longrightarrow> \<not> nullish v"
  by (cases v) auto

lemma initial_state_array:
  "opt_prop post ''likes'' = JArr users \<Longrightarrow> list_all (\<lambda>u. \<not> nullish u) users \<Longrightarrow>
   initial_state post =
     Inr \<lparr>likes = map (\<lambda>u. opt_prop u ''$id'') users, isSaved = False\<rparr>"
  by (simp add: initial_state_def likesList_def get_prop_opt_prop opt_prop_not_nullish
        map_js_get_prop)

text \<open>
  C9, as the code has it. The seed copies the identifiers of the remote like list as they
  come. When that list holds pairwise distinct identifiers (and no nullish element), the
  seeded like sequence holds each identifier at most once; and \<^verbatim>\<open>handleLikePost\<close>, for
  every item and viewer, returns and turns a like sequence free of repetitions into one
  free of repetitions.
\<close>

theorem likes_at_most_once:
  "(opt_prop post ''likes'' = JArr users \<and> list_all (\<lambda>u. \<not> nullish u) users
      \<and> distinct (map (\<lambda>u. opt_prop u ''$id'') users) \<longrightarrow>
      (\<exists>st0. initial_state post = Inr st0 \<and> distinct (likes st0)))
   \<and> (distinct (likes st) \<longrightarrow>
      (\<exists>st' effs. handleLikePost post' v st = Inr (st', effs) \<and> distinct (likes st')))"
proof (intro conjI impI)
  assume "opt_prop post ''likes'' = JArr users \<and> list_all (\<lambda>u. \<not> nullish u) users
      \<and> distinct (map (\<lambda>u. opt_prop u ''$id'') users)"
  then show "\<exists>st0. initial_state post = Inr st0 \<and> distinct (likes st0)"
    by (simp add: initial_state_array)
next
  assume d: "distinct (likes st)"
  show "\<exists>st' effs. handleLikePost post' v st = Inr (st', effs) \<and> distinct (likes st')"
  proof (cases "truthy (opt_prop post' ''$id'')")
    case True
    with d show ?thesis by (simp add: handleLikePost_present distinct_toggled)
  next
    case False
    with d show ?thesis by (simp add: handleLikePost_absent distinct_toggled)
  qed
qed

theorem likes_at_most_once_witness:
  "opt_prop (JObj [(''$id'', JStr ''P1''),
                   (''likes'', JArr [JObj [(''$id'', JStr ''U2'')],
                                     JObj [(''$id'', JStr ''U3'')]])]) ''likes'' =
     JArr [JObj [(''$id'', JStr ''U2'')], JObj [(''$id'', JStr ''U3'')]]
   \<and> list_all (\<lambda>u. \<not> nullish u) [JObj [(''$id'', JStr ''U2'')], JObj [(''$id'', JStr ''U3'')]]
   \<and> distinct (map (\<lambda>u. opt_prop u ''$id'')
                [JObj [(''$id'', JStr ''U2'')], JObj [(''$id'', JStr ''U3'')]])
   \<and> distinct (likes \<lparr>likes = [JStr ''U2'', JStr ''U3''], isSaved = False\<rparr>)
   \<and> (\<exists>st0. initial_state (JObj [(''$id'', JStr ''P1''),
                   (''likes'', JArr [JObj [(''$id'', JStr ''U2'')],
                                     JObj [(''$id'', JStr ''U3'')]])]) = Inr st0
          \<and> distinct (likes st0))
   \<and> (\<exists>st' effs. handleLikePost (JObj [(''$id'', JStr ''P1'')]) ''U3''
                     \<lparr>likes = [JStr ''U2'', JStr ''U3''], isSaved = False\<rparr> = Inr (st', effs)
          \<and> distinct (likes st'))"
proof -
  let ?us = "[JObj [(''$id'', JStr ''U2'')], JObj [(''$id'', JStr ''U3'')]]"
  let ?P = "JObj [(''$id'', JStr ''P1''), (''likes'', JArr ?us)]"
  let ?S = "\<lparr>likes = [JStr ''U2'', JStr ''U3''], isSaved = False\<rparr>"
  have arr: "opt_prop ?P ''likes'' = JArr ?us" by simp
  have elems: "list_all (\<lambda>u. \<not> nullish u) ?us" by simp
  have ids: "distinct (map (\<lambda>u. opt_prop u ''$id'') ?us)" by simp
  have inv: "distinct (likes ?S)" by simp
  note both = likes_at_most_once
                [of ?P ?us ?S "JObj [(''$id'', JStr ''P1'')]" "''U3''"]
  from both arr elems ids
  have seeded: "\<exists>st0. initial_state ?P = Inr st0 \<and> distinct (likes st0)"
    by blast
  from both inv
  have kept: "\<exists>st' effs. handleLikePost (JObj [(''$id'', JStr ''P1'')]) ''U3'' ?S = Inr (st', effs)
          \<and> distinct (likes st')"
    by blast
  show ?thesis
    by (rule conjI [OF arr conjI [OF elems conjI [OF ids conjI [OF inv conjI [OF seeded kept]]]]])
qed

text \<open>
  C9 as stated has the seeded state free of repetitions for every remote snapshot. A like
  list naming \<^verbatim>\<open>"U1"\<close> twice seeds \<^verbatim>\<open>["U1","U1"]\<close>.
\<close>

theorem likes_seed_duplicates_counterexample:
  "initial_state (JObj [(''$id'', JStr ''P1''),
                        (''likes'', JArr [JObj [(''$id'', JStr ''U1'')],
                                          JObj [(''$id'', JStr ''U1'')]])]) =
      Inr \<lparr>likes = [JStr ''U1'', JStr ''U1''], isSaved = False\<rparr>
   \<and> \<not> distinct (likes \<lparr>likes = [JStr ''U1'', JStr ''U1''], isSaved = False\<rparr>)"
  by (simp add: initial_state_def likesList_def)

end
